theory Spec2Isabelle
  imports Main "HOL-Library.Sublist"
begin

section \<open>Strings and paths\<close>

text \<open>
  A Python \<open>str\<close> is modelled by the list of its UTF-8 bytes (\<^typ>\<open>string\<close>), so the
  three non-ASCII message prefixes of \<open>run.py\<close> appear below as byte lists.

  \<open>pathlib.Path\<close> is modelled in its POSIX flavour (the script starts with
  \<open>#!/usr/bin/env python3\<close>): a path is a root (\<open>''''\<close>, \<open>''/''\<close> or \<open>''//''\<close>) and the list
  of its components. Building a path from a string drops empty components and
  \<open>''.''\<close> components, exactly as \<open>PurePosixPath\<close> does; \<open>''..''\<close> is kept.
\<close>

fun split_sep :: "char \<Rightarrow> string \<Rightarrow> string list" where
  "split_sep sep [] = [[]]"
| "split_sep sep (c # cs) =
     (if c = sep then [] # split_sep sep cs
      else (case split_sep sep cs of [] \<Rightarrow> [[c]] | w # ws \<Rightarrow> (c # w) # ws))"

fun join_sep :: "string \<Rightarrow> string list \<Rightarrow> string" where
  "join_sep sep [] = []"
| "join_sep sep [x] = x"
| "join_sep sep (x # y # ys) = x @ sep @ join_sep sep (y # ys)"

datatype ppath = PPath (proot: string) (ptail: "string list")

definition splitroot :: "string \<Rightarrow> string \<times> string" where
  "splitroot s =
     (let rel = dropWhile (\<lambda>c. c = CHR ''/'') s;
          n = length s - length rel
      in (if n = 0 then [] else if n = 2 then ''//'' else ''/'', rel))"

definition Path_of :: "string \<Rightarrow> ppath" where
  "Path_of s =
     (case splitroot s of
        (r, rel) \<Rightarrow> PPath r (filter (\<lambda>x. x \<noteq> [] \<and> x \<noteq> ''.'') (split_sep (CHR ''/'') rel)))"

definition str_path :: "ppath \<Rightarrow> string" where
  "str_path p =
     (let s = proot p @ join_sep ''/'' (ptail p) in if s = [] then ''.'' else s)"

definition joinpath :: "ppath \<Rightarrow> string \<Rightarrow> ppath" where
  "joinpath base s =
     (let q = Path_of s
      in if proot q \<noteq> [] then q else PPath (proot base) (ptail base @ ptail q))"

section \<open>The environment of a run\<close>

text \<open>
  Exceptions carry the text that \<open>str(e)\<close> gives. \<open>SystemExit\<close> is not among them: it is
  not a subclass of \<open>Exception\<close> and is modelled by \<open>signal\<close> below.
\<close>

datatype pyexc =
    FileNotFoundError string
  | PermissionError string
  | OSError string
  | ValueError string
  | KeyError string
  | IndexError string
  | OtherError string

fun str_exc :: "pyexc \<Rightarrow> string" where
  "str_exc (FileNotFoundError m) = m"
| "str_exc (PermissionError m) = m"
| "str_exc (OSError m) = m"
| "str_exc (ValueError m) = m"
| "str_exc (KeyError m) = m"
| "str_exc (IndexError m) = m"
| "str_exc (OtherError m) = m"

text \<open>
  A call into \<open>pandas\<close>, \<open>pickle\<close> or the model returns or raises, and before that it may
  report through the \<open>warnings\<close> module, which writes to stderr: the first component of a
  \<open>warned\<close> value is the list of the texts so written, in order.

  A table is a list of rows, a row a list of cells, a missing cell is \<open>None\<close>. A model
  object is its \<open>predict\<close> method.
\<close>

type_synonym 'a warned = "string list \<times> (pyexc + 'a)"
type_synonym table = "string option list list"
type_synonym model = "table \<Rightarrow> int list warned"

text \<open>
  Everything \<open>run.py\<close> reads from outside itself:
  \<^item> \<open>file_dir\<close>: \<open>Path(__file__).resolve().parent\<close>, \<open>None\<close> when that raises;
  \<^item> \<open>argv0_dir\<close>: \<open>Path(sys.argv[0]).resolve().parent\<close>, \<open>None\<close> when that raises;
  \<^item> \<open>meipass\<close>: \<open>getattr(sys, "_MEIPASS", None)\<close>, a string when the attribute is set, so that
    \<open>Path(meipass)\<close> does not raise and the \<open>except\<close> of line 32 has no branch here;
  \<^item> \<open>cwd\<close>: \<open>Path.cwd()\<close>, or the exception \<open>os.getcwd()\<close> raises (it does when the
    working directory has been removed);
  \<^item> \<open>stat\<close>: what \<open>Path.exists()\<close> gets from \<open>os.stat\<close> on a path string, taken as it is
    passed (a relative name is not rewritten): \<open>Inr True\<close> when the call succeeds,
    \<open>Inr False\<close> when it fails with an error that \<open>exists()\<close> turns into \<open>False\<close> (no such
    file, not a directory, too many links, an embedded null byte), \<open>Inl e\<close> when it
    fails with another error, which \<open>exists()\<close> raises again (a name too long, a directory
    that may not be searched);
  \<^item> \<open>read_csv\<close>: \<open>pd.read_csv\<close> on a path string;
  \<^item> \<open>unpickle\<close>: \<open>open(p, "rb")\<close> followed by \<open>pickle.load\<close>;
  \<^item> \<open>repr_str\<close>: the built-in \<open>repr\<close> on a \<open>str\<close>, which the f-string of line 114 applies
    to every element of \<open>tried_paths\<close>;
  \<^item> \<open>repr_code\<close>: the text of \<open>KeyError(k)\<close> for a class code \<open>k\<close>;
  \<^item> \<open>format_exc\<close>: \<open>traceback.format_exc()\<close> while the exception is handled.
\<close>

record env =
  file_dir :: "ppath option"
  argv0_dir :: "ppath option"
  meipass :: "string option"
  cwd :: "pyexc + ppath"
  stat :: "string \<Rightarrow> pyexc + bool"
  read_csv :: "string \<Rightarrow> table warned"
  unpickle :: "string \<Rightarrow> model warned"
  repr_str :: "string \<Rightarrow> string"
  repr_code :: "int \<Rightarrow> string"
  format_exc :: "pyexc \<Rightarrow> string"

text \<open>\<open>p.exists()\<close>: it returns a truth value or raises.\<close>

definition path_exists :: "env \<Rightarrow> ppath \<Rightarrow> pyexc + bool" where
  "path_exists E p = stat E (str_path p)"

section \<open>Path resolver\<close>

text \<open>\<open>candidate_dirs\<close> (lines 12-39), one definition for each of its four steps.\<close>

definition dirs_file :: "env \<Rightarrow> ppath list" where
  "dirs_file E = (case file_dir E of None \<Rightarrow> [] | Some d \<Rightarrow> [d])"

definition dirs_argv0 :: "env \<Rightarrow> ppath list" where
  "dirs_argv0 E =
     (let dirs = dirs_file E
      in case argv0_dir E of
           None \<Rightarrow> dirs
         | Some a \<Rightarrow> if a \<in> set dirs then dirs else dirs @ [a])"

definition dirs_meipass :: "env \<Rightarrow> ppath list" where
  "dirs_meipass E =
     (let dirs = dirs_argv0 E
      in case meipass E of
           None \<Rightarrow> dirs
         | Some m \<Rightarrow>
             if m = [] then dirs
             else if Path_of m \<in> set dirs then dirs else Path_of m # dirs)"

definition candidate_dirs :: "env \<Rightarrow> pyexc + ppath list" where
  "candidate_dirs E =
     (let dirs = dirs_meipass E
      in case cwd E of
           Inl e \<Rightarrow> Inl e
         | Inr c \<Rightarrow> Inr (if c \<in> set dirs then dirs else dirs @ [c]))"

text \<open>
  The resolver's functions return or raise, and next to that they give the list of the
  path strings on which \<open>exists()\<close> has been called, in call order: the paths attempted.
  This list is written at the \<open>exists()\<close> calls and nowhere else; the list \<open>tried\<close> of
  \<open>prepare_model_path\<close> is another one, written where the source appends to it.
\<close>

type_synonym 'a probed = "string list \<times> (pyexc + 'a)"

fun scan_names :: "env \<Rightarrow> ppath \<Rightarrow> string list \<Rightarrow> ppath option probed" where
  "scan_names E d [] = ([], Inr None)"
| "scan_names E d (name # names) =
     (let p = joinpath d name
      in case path_exists E p of
           Inl e \<Rightarrow> ([str_path p], Inl e)
         | Inr found \<Rightarrow>
             if found then ([str_path p], Inr (Some p))
             else (case scan_names E d names of (lg, r) \<Rightarrow> (str_path p # lg, r)))"

fun scan_dirs :: "env \<Rightarrow> ppath list \<Rightarrow> string list \<Rightarrow> ppath option probed" where
  "scan_dirs E [] names = ([], Inr None)"
| "scan_dirs E (d # ds) names =
     (case scan_names E d names of
        (lg, Inl e) \<Rightarrow> (lg, Inl e)
      | (lg, Inr (Some p)) \<Rightarrow> (lg, Inr (Some p))
      | (lg, Inr None) \<Rightarrow> (case scan_dirs E ds names of (lg', r) \<Rightarrow> (lg @ lg', r)))"

definition find_model_file :: "env \<Rightarrow> string list \<Rightarrow> ppath option probed" where
  "find_model_file E candidate_names =
     (case candidate_dirs E of
        Inl e \<Rightarrow> ([], Inl e)
      | Inr dirs \<Rightarrow> scan_dirs E dirs candidate_names)"

definition candidates :: "string list" where
  "candidates = [''model/RF_binary_v1.pickle'', ''RF_binary_v1.pickle'']"

text \<open>
  The loop of lines 59-63, entered with the list \<open>tried\<close> built so far. Line 61 appends the
  candidate to \<open>tried\<close>, line 62 calls \<open>exists()\<close> on it. The result is the list \<open>tried\<close> as
  the loop leaves it and the candidate found, if any.
\<close>

fun try_bases ::
  "env \<Rightarrow> string \<Rightarrow> ppath list \<Rightarrow> string list \<Rightarrow> (string list \<times> ppath option) probed" where
  "try_bases E cli_model [] tried = ([], Inr (tried, None))"
| "try_bases E cli_model (base # bases) tried =
     (let candidate = joinpath base cli_model;
          tried' = tried @ [str_path candidate]
      in case path_exists E candidate of
           Inl e \<Rightarrow> ([str_path candidate], Inl e)
         | Inr found \<Rightarrow>
             if found then ([str_path candidate], Inr (tried', Some candidate))
             else (case try_bases E cli_model bases tried' of
                     (lg, r) \<Rightarrow> (str_path candidate # lg, r)))"

text \<open>The loop of lines 70-73: every directory with every default name.\<close>

definition all_default_paths :: "ppath list \<Rightarrow> string list" where
  "all_default_paths dirs =
     concat (map (\<lambda>d. map (\<lambda>name. str_path (joinpath d name)) candidates) dirs)"

text \<open>Lines 65-75, reached with the list \<open>tried\<close> built so far.\<close>

definition default_flow :: "env \<Rightarrow> string list \<Rightarrow> (ppath \<times> string list) probed" where
  "default_flow E tried =
     (case find_model_file E candidates of
        (lg, Inl e) \<Rightarrow> (lg, Inl e)
      | (lg, Inr (Some found)) \<Rightarrow> (lg, Inr (found, [str_path found]))
      | (lg, Inr None) \<Rightarrow>
          (case candidate_dirs E of
             Inl e \<Rightarrow> (lg, Inl e)
           | Inr dirs \<Rightarrow>
               (lg, Inr (Path_of (candidates ! 0), tried @ all_default_paths dirs))))"

text \<open>
  \<open>prepare_model_path\<close> (lines 52-75). \<open>if cli_model:\<close> is false for \<open>None\<close> and for the empty
  string.
\<close>

definition prepare_model_path :: "env \<Rightarrow> string option \<Rightarrow> (ppath \<times> string list) probed" where
  "prepare_model_path E cli_model =
     (case cli_model of
        None \<Rightarrow> default_flow E []
      | Some s \<Rightarrow>
          if s = [] then default_flow E []
          else
            (let p = Path_of s; tried = [str_path p]
             in case path_exists E p of
                  Inl e \<Rightarrow> ([str_path p], Inl e)
                | Inr found \<Rightarrow>
                    if found then ([str_path p], Inr (p, tried))
                    else
                      (case candidate_dirs E of
                         Inl e \<Rightarrow> ([str_path p], Inl e)
                       | Inr dirs \<Rightarrow>
                           (case try_bases E s dirs tried of
                              (lg, Inl e) \<Rightarrow> (str_path p # lg, Inl e)
                            | (lg, Inr (tried', Some candidate)) \<Rightarrow>
                                (str_path p # lg, Inr (candidate, tried'))
                            | (lg, Inr (tried', None)) \<Rightarrow>
                                (case default_flow E tried' of
                                   (lg', r) \<Rightarrow> (str_path p # lg @ lg', r))))))"

section \<open>Text formatting\<close>

text \<open>
  \<open>str\<close> of a list of strings, as the f-string of line 114 formats \<open>tried_paths\<close>: the
  \<open>repr\<close> of every element, separated by a comma and a space, in brackets.
\<close>

definition str_list :: "env \<Rightarrow> string list \<Rightarrow> string" where
  "str_list E xs = ''['' @ join_sep '', '' (map (repr_str E) xs) @ '']''"

text \<open>
  \<open>json.dumps(obj, ensure_ascii=False)\<close> on the two dictionaries of \<open>main\<close>. A string is
  quoted; \<open>"\<close>, the backslash and the control characters below \<open>0x20\<close> are escaped, every
  other character is copied.
\<close>

definition hex_digit :: "nat \<Rightarrow> char" where
  "hex_digit n = ''0123456789abcdef'' ! (n mod 16)"

definition json_esc :: "char \<Rightarrow> string" where
  "json_esc c =
     (if c = CHR 0x22 then [CHR 0x5C, CHR 0x22]
      else if c = CHR 0x5C then [CHR 0x5C, CHR 0x5C]
      else if c = CHR 0x0A then [CHR 0x5C, CHR ''n'']
      else if c = CHR 0x0D then [CHR 0x5C, CHR ''r'']
      else if c = CHR 0x09 then [CHR 0x5C, CHR ''t'']
      else if c = CHR 0x08 then [CHR 0x5C, CHR ''b'']
      else if c = CHR 0x0C then [CHR 0x5C, CHR ''f'']
      else if (of_char c :: nat) < 32
        then [CHR 0x5C, CHR ''u'', CHR ''0'', CHR ''0'', hex_digit (of_char c div 16), hex_digit (of_char c)]
      else [c])"

definition json_str :: "string \<Rightarrow> string" where
  "json_str s = CHR 0x22 # concat (map json_esc s) @ [CHR 0x22]"

datatype envelope = Success string | Failure string string

fun json_dumps :: "envelope \<Rightarrow> string" where
  "json_dumps (Success label) =
     ''{'' @ json_str ''success'' @ '': true, '' @ json_str ''results'' @ '': '' @ json_str label @ ''}''"
| "json_dumps (Failure msg tb) =
     ''{'' @ json_str ''success'' @ '': false, '' @ json_str ''error'' @ '': '' @ json_str msg
       @ '', '' @ json_str ''traceback'' @ '': '' @ json_str tb @ ''}''"

section \<open>Predictor\<close>

definition dropna :: "table \<Rightarrow> table" where
  "dropna df = filter (\<lambda>row. None \<notin> set row) df"

definition mapping :: "int \<rightharpoonup> string" where
  "mapping = [0 \<mapsto> ''BPA'', 1 \<mapsto> ''UPA'']"

definition model_missing_prefix :: string where
  "model_missing_prefix =
     [CHR 0xE6, CHR 0xA8, CHR 0xA1, CHR 0xE5, CHR 0x9E, CHR 0x8B, CHR 0xE6, CHR 0x96, CHR 0x87,
      CHR 0xE4, CHR 0xBB, CHR 0xB6, CHR 0xE4, CHR 0xB8, CHR 0x8D, CHR 0xE5, CHR 0xAD, CHR 0x98,
      CHR 0xE5, CHR 0x9C, CHR 0xA8] @ '': ''"

definition csv_missing_prefix :: string where
  "csv_missing_prefix =
     [CHR 0xE8, CHR 0xBE, CHR 0x93, CHR 0xE5, CHR 0x85, CHR 0xA5] @ '' CSV ''
     @ [CHR 0xE6, CHR 0x9C, CHR 0xAA, CHR 0xE6, CHR 0x89, CHR 0xBE, CHR 0xE5, CHR 0x88, CHR 0xB0] @ '': ''"

definition load_failed_prefix :: string where
  "load_failed_prefix =
     [CHR 0xE6, CHR 0x97, CHR 0xA0, CHR 0xE6, CHR 0xB3, CHR 0x95, CHR 0xE5, CHR 0x8A, CHR 0xA0,
      CHR 0xE8, CHR 0xBD, CHR 0xBD, CHR 0xE6, CHR 0xA8, CHR 0xA1, CHR 0xE5, CHR 0x9E, CHR 0x8B]
     @ '': attempted paths: ''"

text \<open>\<open>load_model_from_path\<close> (lines 78-82); its \<open>exists()\<close> call may raise as any other.\<close>

definition load_model_from_path :: "env \<Rightarrow> ppath \<Rightarrow> model warned" where
  "load_model_from_path E p =
     (case path_exists E p of
        Inl e \<Rightarrow> ([], Inl e)
      | Inr found \<Rightarrow>
          if \<not> found then ([], Inl (FileNotFoundError (model_missing_prefix @ str_path p)))
          else unpickle E (str_path p))"

text \<open>Lines 110-115: any exception of the load is replaced by one that lists \<open>tried_paths\<close>.\<close>

definition load_error :: "env \<Rightarrow> string list \<Rightarrow> pyexc \<Rightarrow> pyexc" where
  "load_error E tried_paths load_exc =
     FileNotFoundError
       (load_failed_prefix @ str_list E tried_paths @ ''. Exception: '' @ str_exc load_exc)"

text \<open>
  Lines 97-121 of \<open>main\<close>: from the parsed arguments to the label, or to the exception
  that leaves the \<open>try\<close> body, with the warnings the libraries have written on the way.
\<close>

definition predict_label :: "env \<Rightarrow> string \<Rightarrow> string option \<Rightarrow> string warned" where
  "predict_label E csv cli_model =
     (let csv_path = Path_of csv
      in case path_exists E csv_path of
           Inl e \<Rightarrow> ([], Inl e)
         | Inr found \<Rightarrow>
             if \<not> found
             then ([], Inl (FileNotFoundError (csv_missing_prefix @ str_path csv_path)))
             else
               (case snd (prepare_model_path E cli_model) of
                  Inl e \<Rightarrow> ([], Inl e)
                | Inr (model_path, tried_paths) \<Rightarrow>
                    (case read_csv E (str_path csv_path) of
                       (w1, Inl e) \<Rightarrow> (w1, Inl e)
                     | (w1, Inr df0) \<Rightarrow>
                         (let df = dropna df0
                          in if length df = 0
                             then (w1, Inl (ValueError ''No rows after dropna()''))
                             else
                               (case load_model_from_path E model_path of
                                  (w2, Inl load_exc) \<Rightarrow>
                                    (w1 @ w2, Inl (load_error E tried_paths load_exc))
                                | (w2, Inr model) \<Rightarrow>
                                    (case model df of
                                       (w3, Inl e) \<Rightarrow> (w1 @ w2 @ w3, Inl e)
                                     | (w3, Inr preds) \<Rightarrow>
                                         (case preds of
                                            [] \<Rightarrow>
                                              (w1 @ w2 @ w3,
                                               Inl (IndexError ''list index out of range''))
                                          | k # rest \<Rightarrow>
                                              (case mapping k of
                                                 None \<Rightarrow>
                                                   (w1 @ w2 @ w3, Inl (KeyError (repr_code E k)))
                                               | Some label \<Rightarrow>
                                                   (w1 @ w2 @ w3, Inr label)))))))))"

section \<open>Process entry point\<close>

text \<open>
  What \<open>parser.parse_args()\<close> does is the argument parser's, not this program's: it
  returns the two arguments, or it writes its own text and raises \<open>SystemExit\<close>, with
  status 2 after a usage error (text on stderr) and status 0 after \<open>-h\<close> (text on stdout).
\<close>

datatype cli = ArgError string | HelpShown string | Parsed string "string option"

text \<open>
  A stream is the list of what was written to it: a line \<open>json.dumps(obj) + "\n"\<close> of
  \<open>main\<close>, text of the argument parser, or a warning of a library.
\<close>

datatype chunk = JsonLine envelope | ParserText string | LibraryText string

fun render :: "chunk \<Rightarrow> string" where
  "render (JsonLine obj) = json_dumps obj @ [CHR 0x0A]"
| "render (ParserText t) = t"
| "render (LibraryText t) = t"

datatype signal = SystemExit int | Raised pyexc

record outcome =
  exit_code :: int
  stdout :: "chunk list"
  stderr :: "chunk list"

text \<open>The \<open>try\<close> body (lines 87-127): what it wrote to stdout and stderr, and how it ended.\<close>

definition try_body :: "env \<Rightarrow> cli \<Rightarrow> chunk list \<times> chunk list \<times> signal" where
  "try_body E args =
     (case args of
        ArgError t \<Rightarrow> ([], [ParserText t], SystemExit 2)
      | HelpShown t \<Rightarrow> ([ParserText t], [], SystemExit 0)
      | Parsed csv cli_model \<Rightarrow>
          (case predict_label E csv cli_model of
             (ws, Inl e) \<Rightarrow> ([], map LibraryText ws, Raised e)
           | (ws, Inr label) \<Rightarrow> ([JsonLine (Success label)], map LibraryText ws, SystemExit 0)))"

text \<open>
  \<open>main\<close>: \<open>except Exception\<close> (lines 129-135) handles an exception and lets \<open>SystemExit\<close>
  pass, which ends the process with its status.
\<close>

definition main :: "env \<Rightarrow> cli \<Rightarrow> outcome" where
  "main E args =
     (case try_body E args of
        (out, err, SystemExit status) \<Rightarrow> \<lparr>exit_code = status, stdout = out, stderr = err\<rparr>
      | (out, err, Raised e) \<Rightarrow>
          \<lparr>exit_code = 2, stdout = out,
           stderr = err @ [JsonLine (Failure (str_exc e) (format_exc E e))]\<rparr>)"

section \<open>Concrete runs\<close>


definition quoted :: "string \<Rightarrow> string" where
  "quoted s = [CHR 0x27] @ s @ [CHR 0x27]"

definition E_ok :: env where
  "E_ok =
     \<lparr>file_dir = Some (Path_of ''/app''), argv0_dir = Some (Path_of ''/app''), meipass = None,
      cwd = Inr (Path_of ''/work''),
      stat = (\<lambda>s. Inr (s = ''data.csv'' \<or> s = ''/work/data.csv''
                        \<or> s = ''/app/RF_binary_v1.pickle'')),
      read_csv = (\<lambda>s. ([], Inr [[Some ''5.1'', None], [Some ''4.9'', Some ''3.0'']])),
      unpickle = (\<lambda>s. ([], Inr (\<lambda>df. ([], Inr (map (\<lambda>row. 1) df))))),
      repr_str = quoted,
      repr_code = (\<lambda>k. ''?''),
      format_exc = (\<lambda>e. ''Traceback'')\<rparr>"

text \<open>
  \<open>E_nocwd\<close>: the working directory has been removed, so \<open>os.getcwd()\<close> raises, so does
  resolving the relative \<open>sys.argv[0]\<close>, and no relative name is found; the script lies in
  \<open>/app\<close> next to \<open>RF_binary_v1.pickle\<close>, and \<open>/data/in.csv\<close> exists with one row, which is
  incomplete.
\<close>

definition E_nocwd :: env where
  "E_nocwd =
     \<lparr>file_dir = Some (Path_of ''/app''), argv0_dir = None, meipass = None,
      cwd = Inl (FileNotFoundError ''[Errno 2] No such file or directory''),
      stat = (\<lambda>s. Inr (s = ''/data/in.csv'' \<or> s = ''/app/RF_binary_v1.pickle'')),
      read_csv = (\<lambda>s. ([], Inr [[Some ''5.1'', None]])),
      unpickle = (\<lambda>s. ([], Inr (\<lambda>df. ([], Inr (map (\<lambda>row. 1) df))))),
      repr_str = quoted,
      repr_code = (\<lambda>k. ''?''),
      format_exc = (\<lambda>e. ''Traceback'')\<rparr>"

text \<open>
  \<open>E_nomodel\<close>: as \<open>E_ok\<close>, but no model file exists anywhere and every row of the CSV is
  complete.
\<close>

definition E_nomodel :: env where
  "E_nomodel =
     \<lparr>file_dir = Some (Path_of ''/app''), argv0_dir = Some (Path_of ''/app''), meipass = None,
      cwd = Inr (Path_of ''/work''),
      stat = (\<lambda>s. Inr (s = ''data.csv'' \<or> s = ''/work/data.csv'')),
      read_csv = (\<lambda>s. ([], Inr [[Some ''4.9'', Some ''3.0'']])),
      unpickle = (\<lambda>s. ([], Inr (\<lambda>df. ([], Inr (map (\<lambda>row. 1) df))))),
      repr_str = quoted,
      repr_code = (\<lambda>k. ''?''),
      format_exc = (\<lambda>e. ''Traceback'')\<rparr>"




text \<open>
  \<open>E_norows\<close>: as \<open>E_nomodel\<close>, but the only row of the CSV is incomplete. \<open>tried_x\<close>: the
  paths the resolver attempts in these two environments for \<open>--model x.pkl\<close>.
\<close>

definition E_norows :: env where
  "E_norows = E_nomodel\<lparr>read_csv := (\<lambda>s. ([], Inr [[Some ''5.1'', None]]))\<rparr>"

definition tried_x :: "string list" where
  "tried_x = [''x.pkl'', ''/app/x.pkl'', ''/work/x.pkl'', ''/app/model/RF_binary_v1.pickle'',
              ''/app/RF_binary_v1.pickle'', ''/work/model/RF_binary_v1.pickle'',
              ''/work/RF_binary_v1.pickle'']"



section \<open>Theorems\<close>

lemmas path_defs = Path_of_def splitroot_def str_path_def joinpath_def path_exists_def
lemmas resolver_defs = prepare_model_path_def default_flow_def find_model_file_def
  all_default_paths_def candidate_dirs_def dirs_meipass_def dirs_argv0_def dirs_file_def
  candidates_def
lemmas run_defs = main_def try_body_def predict_label_def dropna_def load_model_from_path_def
  load_error_def mapping_def

subsection \<open>The entry point, by the way the \<open>try\<close> body ends\<close>

lemma main_raised:
  "predict_label E csv cli_model = (ws, Inl e) \<Longrightarrow>
   main E (Parsed csv cli_model) =
     \<lparr>exit_code = 2, stdout = [],
      stderr = map LibraryText ws @ [JsonLine (Failure (str_exc e) (format_exc E e))]\<rparr>"
  by (simp add: main_def try_body_def)


subsection \<open>A JSON line is one line\<close>

lemma hex_digit_not_newline: "hex_digit n \<noteq> CHR 0x0A"
proof -
  have "hex_digit n \<in> set ''0123456789abcdef''"
    unfolding hex_digit_def by (rule nth_mem) simp
  then show ?thesis by auto
qed

lemma json_esc_no_newline: "CHR 0x0A \<notin> set (json_esc c)"
  using hex_digit_not_newline[of "of_char c div 16"] hex_digit_not_newline[of "of_char c"]
  by (auto simp: json_esc_def)

lemma json_str_no_newline: "CHR 0x0A \<notin> set (json_str s)"
  using json_esc_no_newline by (auto simp: json_str_def)

lemma json_dumps_no_newline: "CHR 0x0A \<notin> set (json_dumps obj)"
  using json_str_no_newline by (cases obj) auto

lemma no_newline_filter: "CHR 0x0A \<notin> set xs \<Longrightarrow> filter (\<lambda>c. c = CHR 0x0A) xs = []"
  by (induction xs) auto

lemma one_json_line:
  "length (filter (\<lambda>c. c = CHR 0x0A) (concat (map render [JsonLine obj]))) = 1"
proof -
  have "filter (\<lambda>c. c = CHR 0x0A) (json_dumps obj) = []"
    using json_dumps_no_newline[of obj] by (rule no_newline_filter)
  then show ?thesis by simp
qed

subsection \<open>Successful runs\<close>




subsection \<open>Failing runs\<close>

lemma predict_label_missing_csv:
  "path_exists E (Path_of csv) = Inr False \<Longrightarrow>
   predict_label E csv cli_model
     = ([], Inl (FileNotFoundError (csv_missing_prefix @ str_path (Path_of csv))))"
  by (simp add: predict_label_def)

lemma predict_label_csv_check_raises:
  "path_exists E (Path_of csv) = Inl e \<Longrightarrow> predict_label E csv cli_model = ([], Inl e)"
  by (simp add: predict_label_def)

text \<open>
  C2 (as amended). When the existence check of the positional CSV path does not return
  true, the run exits with code 2, writes nothing to stdout and writes to stderr one JSON
  line (a single newline, at its end). When the check returns false, the \<open>error\<close> field is
  the not-found message and contains the CSV path in the string form \<open>pathlib\<close> gives it,
  \<open>str(Path(csv))\<close>, which is the argument as typed only when the argument is already in
  that form. When the check itself raises, the \<open>error\<close> field is the text of the exception
  raised by \<open>exists()\<close>.
\<close>

theorem missing_csv_run:
  assumes "path_exists E (Path_of csv) \<noteq> Inr True"
  shows "(path_exists E (Path_of csv) = Inr False \<longrightarrow>
            main E (Parsed csv cli_model) =
              \<lparr>exit_code = 2, stdout = [],
               stderr = [JsonLine (Failure (csv_missing_prefix @ str_path (Path_of csv))
                 (format_exc E (FileNotFoundError (csv_missing_prefix @ str_path (Path_of csv)))))]\<rparr>
            \<and> sublist (str_path (Path_of csv)) (csv_missing_prefix @ str_path (Path_of csv)))
         \<and> (\<forall>e. path_exists E (Path_of csv) = Inl e \<longrightarrow>
              main E (Parsed csv cli_model) =
                \<lparr>exit_code = 2, stdout = [],
                 stderr = [JsonLine (Failure (str_exc e) (format_exc E e))]\<rparr>)
         \<and> exit_code (main E (Parsed csv cli_model)) = 2
         \<and> stdout (main E (Parsed csv cli_model)) = []
         \<and> length (filter (\<lambda>c. c = CHR 0x0A)
               (concat (map render (stderr (main E (Parsed csv cli_model)))))) = 1"
proof (cases "path_exists E (Path_of csv)")
  case (Inl e)
  from main_raised[OF predict_label_csv_check_raises[OF Inl]]
  have m: "main E (Parsed csv cli_model) =
      \<lparr>exit_code = 2, stdout = [], stderr = [JsonLine (Failure (str_exc e) (format_exc E e))]\<rparr>"
    by simp
  from one_json_line[of "Failure (str_exc e) (format_exc E e)"] m Inl show ?thesis by simp
next
  case (Inr found)
  with assms have f: "path_exists E (Path_of csv) = Inr False" by simp
  let ?msg = "csv_missing_prefix @ str_path (Path_of csv)"
  let ?obj = "Failure ?msg (format_exc E (FileNotFoundError ?msg))"
  have m: "main E (Parsed csv cli_model) = \<lparr>exit_code = 2, stdout = [], stderr = [JsonLine ?obj]\<rparr>"
    using main_raised[OF predict_label_missing_csv[OF f]] by simp
  have s: "sublist (str_path (Path_of csv)) ?msg"
    using sublist_appendI[of "str_path (Path_of csv)" csv_missing_prefix "[]"] by simp
  from one_json_line[of ?obj] m s f show ?thesis by simp
qed

theorem missing_csv_run_witness:
  "path_exists E_ok (Path_of ''./missing.csv'') = Inr False
   \<and> str_path (Path_of ''./missing.csv'') = ''missing.csv''
   \<and> main E_ok (Parsed ''./missing.csv'' None) =
       \<lparr>exit_code = 2, stdout = [],
        stderr = [JsonLine (Failure (csv_missing_prefix @ ''missing.csv'') ''Traceback'')]\<rparr>
   \<and> sublist ''missing.csv'' (csv_missing_prefix @ ''missing.csv'')"
proof -
  have h: "path_exists E_ok (Path_of ''./missing.csv'') = Inr False"
    by (simp add: E_ok_def path_defs)
  then have h': "path_exists E_ok (Path_of ''./missing.csv'') \<noteq> Inr True" by simp
  have p: "str_path (Path_of ''./missing.csv'') = ''missing.csv''"
    by (simp add: path_defs)
  have f: "format_exc E_ok (FileNotFoundError (csv_missing_prefix @ ''missing.csv'')) = ''Traceback''"
    by (simp add: E_ok_def)
  have a: "main E_ok (Parsed ''./missing.csv'' None) =
       \<lparr>exit_code = 2, stdout = [],
        stderr = [JsonLine (Failure (csv_missing_prefix @ ''missing.csv'') ''Traceback'')]\<rparr>"
    using missing_csv_run[OF h', of None, THEN conjunct1] h by (simp add: p f)
  have b: "sublist ''missing.csv'' (csv_missing_prefix @ ''missing.csv'')"
    using missing_csv_run[OF h', of None, THEN conjunct1] h by (simp add: p)
  from h p a b show ?thesis by blast
qed

text \<open>
  C2 as stated fails: for the argument \<open>./missing.csv\<close> the \<open>error\<close> field is the prefix
  followed by \<open>missing.csv\<close>, and the string \<open>./missing.csv\<close> does not occur in it.
\<close>

theorem missing_csv_literal_counterexample:
  "path_exists E_ok (Path_of ''./missing.csv'') = Inr False
   \<and> main E_ok (Parsed ''./missing.csv'' None) =
       \<lparr>exit_code = 2, stdout = [],
        stderr = [JsonLine (Failure (csv_missing_prefix @ ''missing.csv'') ''Traceback'')]\<rparr>
   \<and> \<not> sublist ''./missing.csv'' (csv_missing_prefix @ ''missing.csv'')"
proof -
  have h: "path_exists E_ok (Path_of ''./missing.csv'') = Inr False"
    by (simp add: E_ok_def path_defs)
  have a: "main E_ok (Parsed ''./missing.csv'' None) =
       \<lparr>exit_code = 2, stdout = [],
        stderr = [JsonLine (Failure (csv_missing_prefix @ ''missing.csv'') ''Traceback'')]\<rparr>"
    by (simp add: run_defs E_ok_def path_defs)
  have b: "\<not> sublist ''./missing.csv'' (csv_missing_prefix @ ''missing.csv'')"
    by (simp add: csv_missing_prefix_def sublist_code)
  from h a b show ?thesis by blast
qed

text \<open>
  C8. When the argument parser rejects the command line, the run exits with the parser's
  status 2, which is not 0, before any of the main logic; what the parser wrote to stderr
  is all there is on the two streams: \<open>except Exception\<close> does not handle \<open>SystemExit\<close>, so
  no JSON line is written to stdout or to stderr.
\<close>

theorem argument_error_run:
  "main E (ArgError txt) = \<lparr>exit_code = 2, stdout = [], stderr = [ParserText txt]\<rparr>
   \<and> exit_code (main E (ArgError txt)) \<noteq> 0
   \<and> (\<forall>obj. JsonLine obj \<notin> set (stdout (main E (ArgError txt)) @ stderr (main E (ArgError txt))))"
  by (simp add: main_def try_body_def)




text \<open>
  When the resolver returns, a CSV that is left with no row fails with the validation
  error, before any model is loaded.
\<close>

lemma no_rows_run:
  assumes "path_exists E (Path_of csv) = Inr True"
    and "snd (prepare_model_path E cli_model) = Inr (model_path, tried_paths)"
    and "read_csv E (str_path (Path_of csv)) = (w1, Inr df)"
    and "dropna df = []"
  shows "main E (Parsed csv cli_model) =
           \<lparr>exit_code = 2, stdout = [],
            stderr = map LibraryText w1 @ [JsonLine (Failure ''No rows after dropna()''
                        (format_exc E (ValueError ''No rows after dropna()'')))]\<rparr>"
proof -
  have "predict_label E csv cli_model = (w1, Inl (ValueError ''No rows after dropna()''))"
    using assms by (simp add: predict_label_def)
  from main_raised[OF this] show ?thesis by simp
qed

text \<open>
  C3. A CSV that exists and has no complete row is to end the run with code 2 and the
  validation message. \<open>main\<close> resolves the model path (line 101) before it reads the CSV
  (line 104), and \<open>candidate_dirs\<close> calls \<open>Path.cwd()\<close> outside any \<open>try\<close> (line 35): in
  \<open>E_nocwd\<close> the run of \<open>/data/in.csv\<close>, whose only row is incomplete, exits with code 2
  but its envelope carries the \<open>getcwd\<close> error, not the validation message.
\<close>

theorem no_rows_run_without_cwd:
  "path_exists E_nocwd (Path_of ''/data/in.csv'') = Inr True
   \<and> read_csv E_nocwd (str_path (Path_of ''/data/in.csv'')) = ([], Inr [[Some ''5.1'', None]])
   \<and> dropna [[Some ''5.1'', None]] = []
   \<and> main E_nocwd (Parsed ''/data/in.csv'' None) =
       \<lparr>exit_code = 2, stdout = [],
        stderr = [JsonLine (Failure ''[Errno 2] No such file or directory'' ''Traceback'')]\<rparr>"
  by (simp add: E_nocwd_def run_defs resolver_defs path_defs)

subsection \<open>The two searches, in closed form\<close>

lemma scan_names_none:
  "\<forall>name\<in>set names. path_exists E (joinpath d name) = Inr False \<Longrightarrow>
   scan_names E d names = (map (\<lambda>name. str_path (joinpath d name)) names, Inr None)"
  by (induction names) (simp_all add: Let_def)

lemma scan_names_found:
  "\<forall>q\<in>set qs. path_exists E (joinpath d q) = Inr False \<Longrightarrow>
   path_exists E (joinpath d name) = Inr True \<Longrightarrow>
   scan_names E d (qs @ name # rest)
     = (map (\<lambda>q. str_path (joinpath d q)) (qs @ [name]), Inr (Some (joinpath d name)))"
  by (induction qs) (simp_all add: Let_def)

lemma scan_names_None_log:
  "scan_names E d names = (lg, Inr None) \<Longrightarrow> lg = map (\<lambda>name. str_path (joinpath d name)) names"
  by (induction names arbitrary: lg)
     (auto simp: Let_def split: if_splits prod.splits sum.splits)

lemma scan_dirs_none:
  "\<forall>d\<in>set dirs. \<forall>name\<in>set names. path_exists E (joinpath d name) = Inr False \<Longrightarrow>
   scan_dirs E dirs names
     = (concat (map (\<lambda>d. map (\<lambda>name. str_path (joinpath d name)) names) dirs), Inr None)"
  by (induction dirs) (simp_all add: scan_names_none)

lemma scan_dirs_found:
  "\<forall>d'\<in>set ds. \<forall>n\<in>set names. path_exists E (joinpath d' n) = Inr False \<Longrightarrow>
   scan_names E d names = (lg, Inr (Some p)) \<Longrightarrow>
   scan_dirs E (ds @ d # rest) names
     = (concat (map (\<lambda>d. map (\<lambda>name. str_path (joinpath d name)) names) ds) @ lg, Inr (Some p))"
  by (induction ds) (simp_all add: scan_names_none)

lemma scan_dirs_None_log:
  "scan_dirs E dirs names = (lg, Inr None) \<Longrightarrow>
   lg = concat (map (\<lambda>d. map (\<lambda>name. str_path (joinpath d name)) names) dirs)"
  by (induction dirs arbitrary: lg)
     (auto split: prod.splits option.splits sum.splits dest: scan_names_None_log)

lemma scan_names_Some_exists:
  "scan_names E d names = (lg, Inr (Some p)) \<Longrightarrow> path_exists E p = Inr True"
  by (induction names arbitrary: lg)
     (auto simp: Let_def split: if_splits prod.splits sum.splits)

lemma scan_dirs_Some_exists:
  "scan_dirs E dirs names = (lg, Inr (Some p)) \<Longrightarrow> path_exists E p = Inr True"
  by (induction dirs arbitrary: lg)
     (auto split: prod.splits option.splits sum.splits dest: scan_names_Some_exists)

lemma find_model_file_Some_exists:
  "snd (find_model_file E names) = Inr (Some p) \<Longrightarrow> path_exists E p = Inr True"
  by (cases "candidate_dirs E"; cases "scan_dirs E (projr (candidate_dirs E)) names")
     (auto simp: find_model_file_def dest: scan_dirs_Some_exists)

lemma first_default: "Path_of (candidates ! 0) = Path_of ''model/RF_binary_v1.pickle''"
  by (simp add: candidates_def)

lemma default_flow_none:
  assumes "candidate_dirs E = Inr dirs"
    and "\<forall>d\<in>set dirs. \<forall>name\<in>set candidates. path_exists E (joinpath d name) = Inr False"
  shows "default_flow E tried
     = (all_default_paths dirs,
        Inr (Path_of ''model/RF_binary_v1.pickle'', tried @ all_default_paths dirs))"
proof -
  have "scan_dirs E dirs candidates = (all_default_paths dirs, Inr None)"
    using scan_dirs_none[OF assms(2)] by (simp add: all_default_paths_def)
  with assms(1) show ?thesis
    by (simp add: default_flow_def find_model_file_def first_default)
qed

lemma find_model_file_found:
  assumes "candidate_dirs E = Inr (ds @ d # drest)"
    and "names = qs @ name # nrest"
    and "\<forall>d'\<in>set ds. \<forall>n\<in>set names. path_exists E (joinpath d' n) = Inr False"
    and "\<forall>q\<in>set qs. path_exists E (joinpath d q) = Inr False"
    and "path_exists E (joinpath d name) = Inr True"
  shows "find_model_file E names
     = (concat (map (\<lambda>d. map (\<lambda>name. str_path (joinpath d name)) names) ds)
          @ map (\<lambda>q. str_path (joinpath d q)) (qs @ [name]),
        Inr (Some (joinpath d name)))"
proof -
  have "scan_names E d names
      = (map (\<lambda>q. str_path (joinpath d q)) (qs @ [name]), Inr (Some (joinpath d name)))"
    unfolding assms(2) using assms(4,5) by (rule scan_names_found)
  from scan_dirs_found[OF assms(3) this, of drest] assms(1) show ?thesis
    by (simp add: find_model_file_def)
qed

lemma default_flow_found:
  assumes "candidate_dirs E = Inr (ds @ d # drest)"
    and "candidates = qs @ name # nrest"
    and "\<forall>d'\<in>set ds. \<forall>n\<in>set candidates. path_exists E (joinpath d' n) = Inr False"
    and "\<forall>q\<in>set qs. path_exists E (joinpath d q) = Inr False"
    and "path_exists E (joinpath d name) = Inr True"
  shows "default_flow E tried
     = (all_default_paths ds @ map (\<lambda>q. str_path (joinpath d q)) (qs @ [name]),
        Inr (joinpath d name, [str_path (joinpath d name)]))"
  using find_model_file_found[OF assms]
  by (simp add: default_flow_def all_default_paths_def)

lemma default_flow_cases:
  assumes "default_flow E tried = (lg, Inr (p, tried'))"
  shows "(snd (find_model_file E candidates) = Inr (Some p) \<and> tried' = [str_path p])
         \<or> (\<exists>dirs. candidate_dirs E = Inr dirs
               \<and> snd (find_model_file E candidates) = Inr None
               \<and> lg = all_default_paths dirs \<and> tried' = tried @ all_default_paths dirs)"
proof (cases "candidate_dirs E")
  case (Inl e)
  with assms show ?thesis by (simp add: default_flow_def find_model_file_def)
next
  case (Inr dirs)
  obtain lg0 r where sd: "scan_dirs E dirs candidates = (lg0, r)"
    by (cases "scan_dirs E dirs candidates")
  show ?thesis
  proof (cases r)
    case (Inl e)
    with assms Inr sd show ?thesis by (simp add: default_flow_def find_model_file_def)
  next
    case r: (Inr found)
    show ?thesis
    proof (cases found)
      case None
      with sd r have "lg0 = all_default_paths dirs"
        by (simp add: all_default_paths_def scan_dirs_None_log)
      with assms Inr sd r None show ?thesis
        by (auto simp: default_flow_def find_model_file_def)
    next
      case (Some f)
      with assms Inr sd r show ?thesis
        by (auto simp: default_flow_def find_model_file_def)
    qed
  qed
qed

text \<open>
  The loop of lines 59-63 appends to \<open>tried\<close> exactly the paths on which it calls
  \<open>exists()\<close>: the list it leaves is the list it was given followed by its attempts.
\<close>

lemma try_bases_log:
  "try_bases E s dirs tried = (lg, Inr (tried', r)) \<Longrightarrow> tried' = tried @ lg"
proof (induction dirs arbitrary: tried lg)
  case Nil
  then show ?case by simp
next
  case (Cons d dirs)
  let ?c = "str_path (joinpath d s)"
  obtain lg0 r0 where rec: "try_bases E s dirs (tried @ [?c]) = (lg0, r0)"
    by (cases "try_bases E s dirs (tried @ [?c])")
  show ?case
  proof (cases "path_exists E (joinpath d s) = Inr False")
    case True
    with Cons.prems rec have "lg = ?c # lg0" "r0 = Inr (tried', r)"
      by (simp_all add: Let_def)
    with rec Cons.IH[of "tried @ [?c]" lg0] show ?thesis by simp
  next
    case False
    with Cons.prems show ?thesis
      by (auto simp: Let_def split: if_splits sum.splits)
  qed
qed

lemma try_bases_found:
  "try_bases E s dirs tried = (lg, Inr (tried', Some c)) \<Longrightarrow>
   c \<in> (\<lambda>d. joinpath d s) ` set dirs \<and> path_exists E c = Inr True \<and> str_path c \<in> set lg"
  by (induction dirs arbitrary: tried lg)
     (auto simp: Let_def split: if_splits prod.splits sum.splits)

lemma try_bases_none_all:
  "try_bases E s dirs tried = (lg, Inr (tried', None)) \<Longrightarrow>
   (\<forall>d\<in>set dirs. path_exists E (joinpath d s) = Inr False)
   \<and> lg = map (\<lambda>d. str_path (joinpath d s)) dirs"
  by (induction dirs arbitrary: tried lg)
     (auto simp: Let_def split: if_splits prod.splits sum.splits)

lemma try_bases_none:
  "\<forall>d\<in>set dirs. path_exists E (joinpath d s) = Inr False \<Longrightarrow>
   try_bases E s dirs tried
     = (map (\<lambda>d. str_path (joinpath d s)) dirs,
        Inr (tried @ map (\<lambda>d. str_path (joinpath d s)) dirs, None))"
  by (induction dirs arbitrary: tried) (simp_all add: Let_def)

subsection \<open>When the resolver returns\<close>

lemma candidate_dirs_cwd:
  "cwd E = Inr c \<Longrightarrow> \<exists>dirs. candidate_dirs E = Inr dirs \<and> c \<in> set dirs"
  by (auto simp: candidate_dirs_def Let_def)

lemma candidate_dirs_no_cwd:
  "cwd E = Inl e \<Longrightarrow> candidate_dirs E = Inl e"
  by (simp add: candidate_dirs_def Let_def)

lemma scan_names_returns:
  "\<forall>s. \<exists>b. stat E s = Inr b \<Longrightarrow> \<exists>lg r. scan_names E d names = (lg, Inr r)"
proof (induction names)
  case Nil
  then show ?case by simp
next
  case (Cons name names)
  from Cons.prems obtain b where "path_exists E (joinpath d name) = Inr b"
    unfolding path_exists_def by blast
  with Cons.IH[OF Cons.prems] show ?case by (auto simp: Let_def)
qed

lemma scan_dirs_returns:
  "\<forall>s. \<exists>b. stat E s = Inr b \<Longrightarrow> \<exists>lg r. scan_dirs E dirs names = (lg, Inr r)"
proof (induction dirs)
  case Nil
  then show ?case by simp
next
  case (Cons d dirs)
  from scan_names_returns[OF Cons.prems, of d names] Cons.IH[OF Cons.prems]
  show ?case by (auto split: option.splits)
qed

lemma try_bases_returns:
  "\<forall>s. \<exists>b. stat E s = Inr b \<Longrightarrow> \<exists>lg r. try_bases E s dirs tried = (lg, Inr r)"
proof (induction dirs arbitrary: tried)
  case Nil
  then show ?case by simp
next
  case (Cons d dirs)
  from Cons.prems obtain b where "path_exists E (joinpath d s) = Inr b"
    unfolding path_exists_def by blast
  with Cons.IH[OF Cons.prems, of "tried @ [str_path (joinpath d s)]"] show ?case
    by (auto simp: Let_def)
qed

lemma default_flow_returns:
  assumes "cwd E = Inr c" and "\<forall>s. \<exists>b. stat E s = Inr b"
  shows "\<exists>lg p tried'. default_flow E tried = (lg, Inr (p, tried'))"
proof -
  from candidate_dirs_cwd[OF assms(1)] obtain dirs where d: "candidate_dirs E = Inr dirs"
    by blast
  from scan_dirs_returns[OF assms(2), of dirs candidates] d show ?thesis
    by (auto simp: default_flow_def find_model_file_def split: option.splits)
qed

lemma resolver_returns:
  assumes "cwd E = Inr c" and "\<forall>s. \<exists>b. stat E s = Inr b"
  shows "\<exists>lg p tried. prepare_model_path E cli_model = (lg, Inr (p, tried))"
proof (cases "cli_model = None \<or> cli_model = Some []")
  case True
  with default_flow_returns[OF assms, of "[]"] show ?thesis
    by (auto simp: prepare_model_path_def)
next
  case False
  then obtain s where s: "cli_model = Some s" "s \<noteq> []" by auto
  from assms(2) obtain b where b: "path_exists E (Path_of s) = Inr b"
    unfolding path_exists_def by blast
  from candidate_dirs_cwd[OF assms(1)] obtain dirs where d: "candidate_dirs E = Inr dirs"
    by blast
  from try_bases_returns[OF assms(2), of s dirs "[str_path (Path_of s)]"]
  obtain lg tried' r where tb: "try_bases E s dirs [str_path (Path_of s)] = (lg, Inr (tried', r))"
    by auto
  from default_flow_returns[OF assms, of tried']
  obtain lg' p' t' where df: "default_flow E tried' = (lg', Inr (p', t'))" by blast
  from s b d tb df show ?thesis
    by (cases b; cases r) (simp_all add: prepare_model_path_def Let_def)
qed

text \<open>
  C6. The resolver is to return a (path, attempted paths) pair for every input and every
  state of the file system, a failure to resolve a candidate directory counting as that
  candidate being absent. Three of the four candidates are guarded by \<open>try\<close> (lines 14-33);
  the working directory is not (line 35). In \<open>E_nocwd\<close> the resolver raises the \<open>getcwd\<close>
  error instead of returning, although the default model file lies in the script's
  directory. With a working directory the resolver returns whenever none of its
  \<open>exists()\<close> calls raises (\<open>resolver_returns\<close>).
\<close>

theorem resolver_raises_without_cwd:
  "prepare_model_path E_nocwd None
     = ([], Inl (FileNotFoundError ''[Errno 2] No such file or directory''))
   \<and> path_exists E_nocwd (Path_of ''/app/RF_binary_v1.pickle'') = Inr True"
  by (simp add: E_nocwd_def resolver_defs path_defs)

subsection \<open>The empty \<open>--model\<close> value\<close>

text \<open>
  C10. A \<open>--model\<close> value that is the empty string is treated exactly as an omitted flag:
  the resolver attempts the same paths and ends in the same way. What it then does is the
  default search and nothing else. With the candidate directories \<open>dirs\<close>: when no default
  name exists in any of them, the paths attempted and the list returned are both the list
  of every directory with every default name, and the path returned is the first default
  name; when \<open>d\<close> is the first directory and \<open>name\<close> the first default name in it that
  exists, the paths attempted are the default names of the directories before \<open>d\<close> and
  those of \<open>d\<close> up to \<open>name\<close>, and the resolver returns that file with the one-element list
  of its path. In neither case is the empty path attempted, joined to a directory or
  recorded.
\<close>

theorem empty_model_flag_as_omitted:
  "prepare_model_path E (Some []) = prepare_model_path E None
   \<and> (candidate_dirs E = Inr dirs \<longrightarrow>
        ((\<forall>d\<in>set dirs. \<forall>name\<in>set candidates. path_exists E (joinpath d name) = Inr False)
           \<longrightarrow> prepare_model_path E (Some [])
                 = (all_default_paths dirs,
                    Inr (Path_of ''model/RF_binary_v1.pickle'', all_default_paths dirs)))
        \<and> (\<forall>ds d drest qs name nrest.
             dirs = ds @ d # drest \<and> candidates = qs @ name # nrest
             \<and> (\<forall>d'\<in>set ds. \<forall>n\<in>set candidates. path_exists E (joinpath d' n) = Inr False)
             \<and> (\<forall>q\<in>set qs. path_exists E (joinpath d q) = Inr False)
             \<and> path_exists E (joinpath d name) = Inr True
             \<longrightarrow> prepare_model_path E (Some [])
                   = (all_default_paths ds @ map (\<lambda>q. str_path (joinpath d q)) (qs @ [name]),
                      Inr (joinpath d name, [str_path (joinpath d name)]))))"
proof -
  have e: "prepare_model_path E (Some []) = default_flow E []"
    by (simp add: prepare_model_path_def)
  have a: "prepare_model_path E (Some []) = prepare_model_path E None"
    by (simp add: prepare_model_path_def)
  have b: "prepare_model_path E (Some [])
             = (all_default_paths dirs,
                Inr (Path_of ''model/RF_binary_v1.pickle'', all_default_paths dirs))"
    if "candidate_dirs E = Inr dirs"
      "\<forall>d\<in>set dirs. \<forall>name\<in>set candidates. path_exists E (joinpath d name) = Inr False"
    using default_flow_none[OF that, of "[]"] e by simp
  have c: "prepare_model_path E (Some [])
             = (all_default_paths ds @ map (\<lambda>q. str_path (joinpath d q)) (qs @ [name]),
                Inr (joinpath d name, [str_path (joinpath d name)]))"
    if "candidate_dirs E = Inr dirs"
      "dirs = ds @ d # drest" "candidates = qs @ name # nrest"
      "\<forall>d'\<in>set ds. \<forall>n\<in>set candidates. path_exists E (joinpath d' n) = Inr False"
      "\<forall>q\<in>set qs. path_exists E (joinpath d q) = Inr False"
      "path_exists E (joinpath d name) = Inr True"
    for ds d drest qs name nrest
  proof -
    from that(1,2) have "candidate_dirs E = Inr (ds @ d # drest)" by simp
    from default_flow_found[OF this that(3-6), of "[]"] e show ?thesis by simp
  qed
  from a b c show ?thesis by blast
qed

theorem empty_model_flag_as_omitted_witness:
  "candidate_dirs E_ok = Inr [Path_of ''/app'', Path_of ''/work'']
   \<and> path_exists E_ok (joinpath (Path_of ''/app'') ''model/RF_binary_v1.pickle'') = Inr False
   \<and> path_exists E_ok (joinpath (Path_of ''/app'') ''RF_binary_v1.pickle'') = Inr True
   \<and> prepare_model_path E_ok None = prepare_model_path E_ok (Some [])
   \<and> prepare_model_path E_ok (Some [])
       = ([''/app/model/RF_binary_v1.pickle'', ''/app/RF_binary_v1.pickle''],
          Inr (Path_of ''/app/RF_binary_v1.pickle'', [''/app/RF_binary_v1.pickle'']))"
proof -
  let ?app = "Path_of ''/app''"
  have h: "candidate_dirs E_ok = Inr [?app, Path_of ''/work'']"
    by (simp add: E_ok_def resolver_defs path_defs)
  have d: "[?app, Path_of ''/work''] = [] @ ?app # [Path_of ''/work'']" by simp
  have n: "candidates = [''model/RF_binary_v1.pickle''] @ ''RF_binary_v1.pickle'' # []"
    by (simp add: candidates_def)
  have f1: "path_exists E_ok (joinpath ?app ''model/RF_binary_v1.pickle'') = Inr False"
    by (simp add: E_ok_def path_defs)
  have f2: "path_exists E_ok (joinpath ?app ''RF_binary_v1.pickle'') = Inr True"
    by (simp add: E_ok_def path_defs)
  have q: "\<forall>q\<in>set [''model/RF_binary_v1.pickle''].
             path_exists E_ok (joinpath ?app q) = Inr False"
    using f1 by simp
  have e: "\<forall>d'\<in>set []. \<forall>n\<in>set candidates. path_exists E_ok (joinpath d' n) = Inr False"
    by simp
  note r = empty_model_flag_as_omitted[of E_ok "[?app, Path_of ''/work'']"]
  from r have a: "prepare_model_path E_ok None = prepare_model_path E_ok (Some [])" by simp
  from r h d n e q f2 have "prepare_model_path E_ok (Some [])
      = (all_default_paths [] @ map (\<lambda>q. str_path (joinpath ?app q))
                                  ([''model/RF_binary_v1.pickle''] @ [''RF_binary_v1.pickle'']),
         Inr (joinpath ?app ''RF_binary_v1.pickle'',
              [str_path (joinpath ?app ''RF_binary_v1.pickle'')]))"
    by blast
  then have b: "prepare_model_path E_ok (Some [])
       = ([''/app/model/RF_binary_v1.pickle'', ''/app/RF_binary_v1.pickle''],
          Inr (Path_of ''/app/RF_binary_v1.pickle'', [''/app/RF_binary_v1.pickle'']))"
    by (simp add: all_default_paths_def path_defs)
  from h f1 f2 a b show ?thesis by blast
qed

subsection \<open>An explicit model path\<close>

text \<open>
  C7 (as amended). Let the resolver return for an explicit model path. Then one of three
  things has happened, told apart by what the \<open>exists()\<close> calls gave. The explicit path was
  found, as given or joined to a candidate directory: the returned list is exactly the
  list of the paths attempted, in order, and holds the path as given and the path found.
  Or the explicit path was found nowhere and the default search found a file: the returned
  list holds that file's path and nothing else; the explicit path was attempted, as given
  and under every candidate directory, and none of these attempts is in the list.
  Or nothing was found: the returned list is exactly the list of the paths attempted, the
  path as given, its join to every candidate directory, and every directory with every
  default name.
\<close>

theorem explicit_attempts_recorded:
  assumes "s \<noteq> []"
    and "prepare_model_path E (Some s) = (attempted, Inr (p, tried))"
  shows "(path_exists E (Path_of s) = Inr True \<and> p = Path_of s
            \<and> tried = attempted \<and> attempted = [str_path (Path_of s)])
         \<or> (\<exists>dirs. candidate_dirs E = Inr dirs \<and> path_exists E (Path_of s) = Inr False
              \<and> ((p \<in> (\<lambda>d. joinpath d s) ` set dirs \<and> path_exists E p = Inr True
                    \<and> tried = attempted
                    \<and> str_path (Path_of s) \<in> set tried \<and> str_path p \<in> set tried)
                  \<or> ((\<forall>d\<in>set dirs. path_exists E (joinpath d s) = Inr False)
                      \<and> ((snd (find_model_file E candidates) = Inr (Some p)
                             \<and> path_exists E p = Inr True
                             \<and> tried = [str_path p]
                             \<and> str_path (Path_of s) \<in> set attempted
                             \<and> str_path (Path_of s) \<notin> set tried
                             \<and> (\<forall>d\<in>set dirs. str_path (joinpath d s) \<notin> set tried))
                          \<or> (snd (find_model_file E candidates) = Inr None
                             \<and> tried = attempted
                             \<and> attempted = str_path (Path_of s)
                                            # map (\<lambda>d. str_path (joinpath d s)) dirs
                                            @ all_default_paths dirs)))))"
proof (cases "path_exists E (Path_of s)")
  case (Inl e)
  with assms show ?thesis by (simp add: prepare_model_path_def Let_def)
next
  case (Inr found)
  show ?thesis
  proof (cases found)
    case True
    with Inr assms show ?thesis by (auto simp: prepare_model_path_def Let_def)
  next
    case False
    with Inr have nf: "path_exists E (Path_of s) = Inr False" by simp
    show ?thesis
    proof (cases "candidate_dirs E")
      case (Inl e)
      with assms nf show ?thesis by (simp add: prepare_model_path_def Let_def)
    next
      case dirs: (Inr dirs)
      obtain lg r where tb: "try_bases E s dirs [str_path (Path_of s)] = (lg, r)"
        by (cases "try_bases E s dirs [str_path (Path_of s)]")
      show ?thesis
      proof (cases r)
        case (Inl e)
        with assms nf dirs tb show ?thesis by (simp add: prepare_model_path_def Let_def)
      next
        case r: (Inr tr)
        obtain tried' c where tr: "tr = (tried', c)" by (cases tr)
        with tb r have tb': "try_bases E s dirs [str_path (Path_of s)] = (lg, Inr (tried', c))"
          by simp
        from try_bases_log[OF tb'] have t': "tried' = str_path (Path_of s) # lg" by simp
        show ?thesis
        proof (cases c)
          case (Some cand)
          with assms nf dirs tb' have res: "p = cand" "tried = tried'"
              "attempted = str_path (Path_of s) # lg"
            by (simp_all add: prepare_model_path_def Let_def)
          from try_bases_found[OF tb'[unfolded Some]] res(1)
          have "p \<in> (\<lambda>d. joinpath d s) ` set dirs" "path_exists E p = Inr True"
            "str_path p \<in> set lg" by simp_all
          with res t' dirs nf show ?thesis by simp
        next
          case None
          from try_bases_none_all[OF tb'[unfolded None]]
          have all: "\<forall>d\<in>set dirs. path_exists E (joinpath d s) = Inr False"
            and lg: "lg = map (\<lambda>d. str_path (joinpath d s)) dirs" by simp_all
          obtain lg' r' where df: "default_flow E tried' = (lg', r')"
            by (cases "default_flow E tried'")
          with assms nf dirs tb' None have res: "attempted = str_path (Path_of s) # lg @ lg'"
              "r' = Inr (p, tried)"
            by (simp_all add: prepare_model_path_def Let_def)
          from df res(2) have "default_flow E tried' = (lg', Inr (p, tried))" by simp
          from default_flow_cases[OF this] dirs
          have "(snd (find_model_file E candidates) = Inr (Some p) \<and> tried = [str_path p])
                \<or> (snd (find_model_file E candidates) = Inr None
                    \<and> lg' = all_default_paths dirs \<and> tried = tried' @ all_default_paths dirs)"
            by auto
          then show ?thesis
          proof
            assume fd: "snd (find_model_file E candidates) = Inr (Some p) \<and> tried = [str_path p]"
            then have ex: "stat E (str_path p) = Inr True"
              using find_model_file_Some_exists[of E candidates p] by (simp add: path_exists_def)
            from nf have "stat E (str_path (Path_of s)) = Inr False"
              by (simp add: path_exists_def)
            with ex have n1: "str_path (Path_of s) \<noteq> str_path p" by auto
            have n2: "\<forall>d\<in>set dirs. str_path (joinpath d s) \<noteq> str_path p"
            proof
              fix d assume "d \<in> set dirs"
              with all have "stat E (str_path (joinpath d s)) = Inr False"
                by (simp add: path_exists_def)
              with ex show "str_path (joinpath d s) \<noteq> str_path p" by auto
            qed
            from ex have ex': "path_exists E p = Inr True" by (simp add: path_exists_def)
            from fd ex' n1 n2 res(1) all dirs nf show ?thesis by simp
          next
            assume "snd (find_model_file E candidates) = Inr None
                    \<and> lg' = all_default_paths dirs \<and> tried = tried' @ all_default_paths dirs"
            with res(1) t' lg all dirs nf show ?thesis by simp
          qed
        qed
      qed
    qed
  qed
qed

theorem explicit_attempts_recorded_witness:
  "prepare_model_path E_nomodel (Some ''x.pkl'')
     = (tried_x, Inr (Path_of ''model/RF_binary_v1.pickle'', tried_x))
   \<and> path_exists E_nomodel (Path_of ''x.pkl'') = Inr False
   \<and> candidate_dirs E_nomodel = Inr [Path_of ''/app'', Path_of ''/work'']
   \<and> snd (find_model_file E_nomodel candidates) = Inr None
   \<and> tried_x = str_path (Path_of ''x.pkl'')
                # map (\<lambda>d. str_path (joinpath d ''x.pkl'')) [Path_of ''/app'', Path_of ''/work'']
                @ all_default_paths [Path_of ''/app'', Path_of ''/work'']"
proof -
  have h1: "''x.pkl'' \<noteq> []" by simp
  have h2: "prepare_model_path E_nomodel (Some ''x.pkl'')
     = (tried_x, Inr (Path_of ''model/RF_binary_v1.pickle'', tried_x))"
    by (simp add: E_nomodel_def resolver_defs path_defs tried_x_def)
  have e: "path_exists E_nomodel (Path_of ''x.pkl'') = Inr False"
    by (simp add: E_nomodel_def path_defs)
  have d: "candidate_dirs E_nomodel = Inr [Path_of ''/app'', Path_of ''/work'']"
    by (simp add: E_nomodel_def resolver_defs path_defs)
  have f: "snd (find_model_file E_nomodel candidates) = Inr None"
    by (simp add: E_nomodel_def resolver_defs path_defs)
  have j: "path_exists E_nomodel (joinpath (Path_of ''/app'') ''x.pkl'') = Inr False"
      "path_exists E_nomodel (joinpath (Path_of ''/work'') ''x.pkl'') = Inr False"
    by (simp_all add: E_nomodel_def path_defs)
  from explicit_attempts_recorded[OF h1 h2] e d f j
  have "tried_x = str_path (Path_of ''x.pkl'')
                # map (\<lambda>d. str_path (joinpath d ''x.pkl'')) [Path_of ''/app'', Path_of ''/work'']
                @ all_default_paths [Path_of ''/app'', Path_of ''/work'']"
    by auto
  with h2 e d f show ?thesis by blast
qed

text \<open>
  C7 as stated fails: in \<open>E_ok\<close> the explicit path \<open>x.pkl\<close> is tried as given and under
  \<open>/app\<close> and \<open>/work\<close>, the default search then finds \<open>/app/RF_binary_v1.pickle\<close>, and the
  returned list (line 68) is that one path: none of the three explicit attempts is in it.
\<close>

theorem explicit_attempts_dropped_counterexample:
  "prepare_model_path E_ok (Some ''x.pkl'')
     = ([''x.pkl'', ''/app/x.pkl'', ''/work/x.pkl'', ''/app/model/RF_binary_v1.pickle'',
         ''/app/RF_binary_v1.pickle''],
        Inr (Path_of ''/app/RF_binary_v1.pickle'', [''/app/RF_binary_v1.pickle'']))
   \<and> ''x.pkl'' \<notin> set [''/app/RF_binary_v1.pickle'']
   \<and> ''/app/x.pkl'' \<notin> set [''/app/RF_binary_v1.pickle'']
   \<and> ''/work/x.pkl'' \<notin> set [''/app/RF_binary_v1.pickle'']"
  by (simp add: E_ok_def resolver_defs path_defs)

subsection \<open>The bundle directory\<close>






subsection \<open>A model that is found nowhere\<close>

lemma join_sep_sublist: "x \<in> set xs \<Longrightarrow> sublist x (join_sep sep xs)"
proof (induction sep xs rule: join_sep.induct)
  case (1 sep)
  then show ?case by simp
next
  case (2 sep y)
  then show ?case by simp
next
  case (3 sep y z zs)
  show ?case
  proof (cases "x = y")
    case True
    then show ?thesis by (simp add: sublist_append_rightI)
  next
    case False
    with "3.prems" have "x \<in> set (z # zs)" by simp
    from "3.IH"[OF this] have "sublist x (join_sep sep (z # zs))" .
    then have "sublist x ((y @ sep) @ join_sep sep (z # zs))"
      by (rule sublist_order.order_trans) (rule sublist_append_leftI)
    then show ?thesis by simp
  qed
qed

lemma repr_in_str_list: "p \<in> set xs \<Longrightarrow> sublist (repr_str E p) (str_list E xs)"
proof -
  assume "p \<in> set xs"
  then have "repr_str E p \<in> set (map (repr_str E) xs)" by simp
  then have "sublist (repr_str E p) (join_sep '', '' (map (repr_str E) xs))"
    by (rule join_sep_sublist)
  then obtain ps ss where "join_sep '', '' (map (repr_str E) xs) = ps @ repr_str E p @ ss"
    by (auto simp: sublist_def)
  then have "str_list E xs = (''['' @ ps) @ repr_str E p @ (ss @ '']'')"
    by (simp add: str_list_def)
  then show ?thesis unfolding sublist_def by blast
qed

text \<open>
  C4 (as amended). Let the CSV file exist and be read with at least one complete row, let
  the candidate directories be \<open>dirs\<close>, and let every \<open>exists()\<close> call of the resolution and
  of the load return false: on the \<open>--model\<close> override as given and joined to every
  candidate directory, on every default name in every candidate directory, and on the
  path the resolver then returns, the relative name \<open>model/RF_binary_v1.pickle\<close>. Then the
  resolver's list \<open>tried\<close> is exactly the list of the paths it attempted and is not empty;
  the run exits with code 2 and writes nothing to stdout; and the error message of the
  stderr envelope holds the Python list text of \<open>tried\<close>, so the \<open>repr\<close> of every attempted
  path occurs in it.
\<close>

theorem unresolved_model_run:
  fixes E :: env and s csv :: string and dirs :: "ppath list"
  defines "tried \<equiv> str_path (Path_of s) # map (\<lambda>d. str_path (joinpath d s)) dirs
                      @ all_default_paths dirs"
  defines "msg \<equiv> load_failed_prefix @ str_list E tried @ ''. Exception: ''
                    @ model_missing_prefix @ ''model/RF_binary_v1.pickle''"
  assumes csv: "path_exists E (Path_of csv) = Inr True"
    and rd: "read_csv E (str_path (Path_of csv)) = (w1, Inr df)"
    and rows: "dropna df \<noteq> []"
    and dirs: "candidate_dirs E = Inr dirs"
    and given: "s \<noteq> []"
    and no_literal: "path_exists E (Path_of s) = Inr False"
    and no_joined: "\<forall>d\<in>set dirs. path_exists E (joinpath d s) = Inr False"
    and no_default:
      "\<forall>d\<in>set dirs. \<forall>name\<in>set candidates. path_exists E (joinpath d name) = Inr False"
    and no_returned: "path_exists E (Path_of ''model/RF_binary_v1.pickle'') = Inr False"
  shows "prepare_model_path E (Some s) = (tried, Inr (Path_of ''model/RF_binary_v1.pickle'', tried))
         \<and> tried \<noteq> []
         \<and> main E (Parsed csv (Some s)) =
             \<lparr>exit_code = 2, stdout = [],
              stderr = map LibraryText w1
                       @ [JsonLine (Failure msg (format_exc E (FileNotFoundError msg)))]\<rparr>
         \<and> (\<forall>p\<in>set tried. sublist (repr_str E p) msg)"
proof -
  let ?first = "Path_of ''model/RF_binary_v1.pickle''"
  have tb: "try_bases E s dirs [str_path (Path_of s)]
      = (map (\<lambda>d. str_path (joinpath d s)) dirs,
         Inr (str_path (Path_of s) # map (\<lambda>d. str_path (joinpath d s)) dirs, None))"
    using try_bases_none[OF no_joined, of "[str_path (Path_of s)]"] by simp
  have df: "default_flow E (str_path (Path_of s) # map (\<lambda>d. str_path (joinpath d s)) dirs)
      = (all_default_paths dirs, Inr (?first, tried))"
    using default_flow_none[OF dirs no_default] by (simp add: tried_def)
  have pm: "prepare_model_path E (Some s) = (tried, Inr (?first, tried))"
    using given no_literal dirs tb df
    by (simp add: prepare_model_path_def Let_def tried_def)
  have sp: "str_path ?first = ''model/RF_binary_v1.pickle''" by (simp add: path_defs)
  have ld: "load_model_from_path E ?first
      = ([], Inl (FileNotFoundError (model_missing_prefix @ ''model/RF_binary_v1.pickle'')))"
    using no_returned by (simp add: load_model_from_path_def sp)
  have "predict_label E csv (Some s) = (w1, Inl (FileNotFoundError msg))"
    using csv rd rows pm ld by (simp add: predict_label_def load_error_def msg_def)
  from main_raised[OF this] have m: "main E (Parsed csv (Some s)) =
      \<lparr>exit_code = 2, stdout = [],
       stderr = map LibraryText w1
                @ [JsonLine (Failure msg (format_exc E (FileNotFoundError msg)))]\<rparr>"
    by simp
  have inc: "\<forall>p\<in>set tried. sublist (repr_str E p) msg"
  proof
    fix p assume "p \<in> set tried"
    from repr_in_str_list[OF this, of E]
    obtain ps ss where "str_list E tried = ps @ repr_str E p @ ss"
      by (auto simp: sublist_def)
    then have "msg = (load_failed_prefix @ ps) @ repr_str E p
        @ (ss @ ''. Exception: '' @ model_missing_prefix @ ''model/RF_binary_v1.pickle'')"
      by (simp add: msg_def)
    then show "sublist (repr_str E p) msg" unfolding sublist_def by blast
  qed
  have ne: "tried \<noteq> []" by (simp add: tried_def)
  from pm ne m inc show ?thesis by simp
qed

theorem unresolved_model_run_witness:
  "path_exists E_nomodel (Path_of ''data.csv'') = Inr True
   \<and> path_exists E_nomodel (Path_of ''x.pkl'') = Inr False
   \<and> candidate_dirs E_nomodel = Inr [Path_of ''/app'', Path_of ''/work'']
   \<and> prepare_model_path E_nomodel (Some ''x.pkl'')
       = (tried_x, Inr (Path_of ''model/RF_binary_v1.pickle'', tried_x))
   \<and> main E_nomodel (Parsed ''data.csv'' (Some ''x.pkl'')) =
       \<lparr>exit_code = 2, stdout = [],
        stderr = [JsonLine (Failure
          (load_failed_prefix @ str_list E_nomodel tried_x @ ''. Exception: ''
             @ model_missing_prefix @ ''model/RF_binary_v1.pickle'')
          ''Traceback'')]\<rparr>
   \<and> repr_str E_nomodel ''/work/x.pkl'' = [CHR 0x27] @ ''/work/x.pkl'' @ [CHR 0x27]
   \<and> sublist (repr_str E_nomodel ''/work/x.pkl'')
        (load_failed_prefix @ str_list E_nomodel tried_x @ ''. Exception: ''
           @ model_missing_prefix @ ''model/RF_binary_v1.pickle'')"
proof -
  let ?dirs = "[Path_of ''/app'', Path_of ''/work'']"
  let ?msg = "load_failed_prefix @ str_list E_nomodel tried_x @ ''. Exception: ''
           @ model_missing_prefix @ ''model/RF_binary_v1.pickle''"
  have h1: "path_exists E_nomodel (Path_of ''data.csv'') = Inr True"
    by (simp add: E_nomodel_def path_defs)
  have h2: "read_csv E_nomodel (str_path (Path_of ''data.csv''))
              = ([], Inr [[Some ''4.9'', Some ''3.0'']])"
    by (simp add: E_nomodel_def)
  have h3: "dropna [[Some ''4.9'', Some ''3.0'']] \<noteq> []" by (simp add: dropna_def)
  have h6: "candidate_dirs E_nomodel = Inr ?dirs"
    by (simp add: E_nomodel_def resolver_defs path_defs)
  have h7: "''x.pkl'' \<noteq> []" by simp
  have h8: "path_exists E_nomodel (Path_of ''x.pkl'') = Inr False"
    by (simp add: E_nomodel_def path_defs)
  have h9: "\<forall>d\<in>set ?dirs. path_exists E_nomodel (joinpath d ''x.pkl'') = Inr False"
    by (simp add: E_nomodel_def path_defs)
  have h10: "\<forall>d\<in>set ?dirs. \<forall>name\<in>set candidates.
               path_exists E_nomodel (joinpath d name) = Inr False"
    by (simp add: E_nomodel_def path_defs candidates_def)
  have h11: "path_exists E_nomodel (Path_of ''model/RF_binary_v1.pickle'') = Inr False"
    by (simp add: E_nomodel_def path_defs)
  have t: "str_path (Path_of ''x.pkl'') # map (\<lambda>d. str_path (joinpath d ''x.pkl'')) ?dirs
             @ all_default_paths ?dirs = tried_x"
    by (simp add: tried_x_def all_default_paths_def candidates_def path_defs)
  have f: "format_exc E_nomodel (FileNotFoundError ?msg) = ''Traceback''"
    by (simp add: E_nomodel_def)
  note r = unresolved_model_run[OF h1 h2 h3 h6 h7 h8 h9 h10 h11, unfolded t f]
  have a: "prepare_model_path E_nomodel (Some ''x.pkl'')
       = (tried_x, Inr (Path_of ''model/RF_binary_v1.pickle'', tried_x))"
    using r by blast
  have b: "main E_nomodel (Parsed ''data.csv'' (Some ''x.pkl'')) =
       \<lparr>exit_code = 2, stdout = [], stderr = [JsonLine (Failure ?msg ''Traceback'')]\<rparr>"
    using r by simp
  have "''/work/x.pkl'' \<in> set tried_x" by (simp add: tried_x_def)
  with r have c: "sublist (repr_str E_nomodel ''/work/x.pkl'') ?msg" by blast
  have d: "repr_str E_nomodel ''/work/x.pkl'' = [CHR 0x27] @ ''/work/x.pkl'' @ [CHR 0x27]"
    by (simp add: E_nomodel_def quoted_def)
  from h1 h8 h6 a b c d show ?thesis by blast
qed

text \<open>
  C4 as stated fails when the run ends before the model is loaded: in \<open>E_norows\<close> the
  override \<open>x.pkl\<close> and the default names exist nowhere and the resolver attempts the seven
  paths of \<open>tried_x\<close>, but the CSV has no complete row, so the error message is the
  validation message (line 107) and holds none of the attempted paths.
\<close>

theorem no_rows_hides_attempts_counterexample:
  "path_exists E_norows (Path_of ''data.csv'') = Inr True
   \<and> path_exists E_norows (Path_of ''x.pkl'') = Inr False
   \<and> snd (find_model_file E_norows candidates) = Inr None
   \<and> prepare_model_path E_norows (Some ''x.pkl'')
       = (tried_x, Inr (Path_of ''model/RF_binary_v1.pickle'', tried_x))
   \<and> main E_norows (Parsed ''data.csv'' (Some ''x.pkl'')) =
       \<lparr>exit_code = 2, stdout = [],
        stderr = [JsonLine (Failure ''No rows after dropna()'' ''Traceback'')]\<rparr>
   \<and> \<not> sublist ''x.pkl'' ''No rows after dropna()''"
proof -
  have a: "path_exists E_norows (Path_of ''data.csv'') = Inr True
     \<and> path_exists E_norows (Path_of ''x.pkl'') = Inr False"
    by (simp add: E_norows_def E_nomodel_def path_defs)
  have b: "snd (find_model_file E_norows candidates) = Inr None"
    by (simp add: E_norows_def E_nomodel_def resolver_defs path_defs)
  have c: "prepare_model_path E_norows (Some ''x.pkl'')
       = (tried_x, Inr (Path_of ''model/RF_binary_v1.pickle'', tried_x))"
    by (simp add: E_norows_def E_nomodel_def resolver_defs path_defs tried_x_def)
  have "predict_label E_norows ''data.csv'' (Some ''x.pkl'')
       = ([], Inl (ValueError ''No rows after dropna()''))"
    using a c by (simp add: predict_label_def dropna_def E_norows_def)
  from main_raised[OF this] have d: "main E_norows (Parsed ''data.csv'' (Some ''x.pkl'')) =
       \<lparr>exit_code = 2, stdout = [],
        stderr = [JsonLine (Failure ''No rows after dropna()'' ''Traceback'')]\<rparr>"
    by (simp add: E_norows_def E_nomodel_def)
  have e: "\<not> sublist ''x.pkl'' ''No rows after dropna()''"
    by (simp add: sublist_code)
  from a b c d e show ?thesis by blast
qed

end
